theory Spec2Isabelle
  imports Main "HOL-Library.AList" "HOL-Library.Char_ord" "HOL-Library.List_Lexorder"
    "HOL-Library.Multiset"
begin

section \<open>JavaScript values used by Manager.js\<close>

text \<open>
  A property that may be \<^verbatim>\<open>undefined\<close> is an \<open>option\<close>.  A string is truthy when it
  is defined and not empty.
\<close>

definition truthy :: "string option \<Rightarrow> bool" where
  "truthy v = (case v of None \<Rightarrow> False | Some s \<Rightarrow> s \<noteq> [])"



text \<open>
  The semver library (\<^verbatim>\<open>require('../util/semver')\<close>) is not part of the sources; the
  functions of it that Manager.js calls are the fields of this record.  \<open>valid\<close> and
  \<open>validRange\<close> stand for the truthiness of what the library returns;
  \<open>toComparators\<close> returns an array of arrays of comparator strings, one inner array for
  each alternative of the range.
\<close>

record semver =
  valid :: "string \<Rightarrow> bool"
  validRange :: "string \<Rightarrow> bool"
  satisfies :: "string \<Rightarrow> string \<Rightarrow> bool"
  sv_eq :: "string \<Rightarrow> string \<Rightarrow> bool"
  sv_gt :: "string \<Rightarrow> string \<Rightarrow> bool"
  sv_lt :: "string \<Rightarrow> string \<Rightarrow> bool"
  sv_compare :: "string \<Rightarrow> string \<Rightarrow> int"
  sv_rcompare :: "string \<Rightarrow> string \<Rightarrow> int"
  toComparators :: "string \<Rightarrow> string list list"

section \<open>The regular expression of \<^verbatim>\<open>_getCap\<close>\<close>








section \<open>Endpoints, data and errors\<close>

text \<open>
  The endpoint objects live in a heap and are named by their index; two names are the
  same object (\<^verbatim>\<open>===\<close>) when the indices are equal.
\<close>

type_synonym ref = nat

record guid =
  rId :: string
  fId :: string
  gId :: string

record pkg_meta =
  pkgName :: string
  version :: "string option"
  release :: "string option"
  metaTarget :: "string option"
  originalSource :: "string option"
  deps :: "(string \<times> string) list"
  devDeps :: "(string \<times> string) list"

text \<open>
  A decomposed endpoint.  \<open>dependants\<close> holds endpoint objects; \<open>dependencies\<close> names
  a dependencies object of the heap (line 633 shares one such object between two endpoints);
  \<open>promise\<close> tells whether \<^verbatim>\<open>decEndpoint.promise\<close> is set; \<open>eguid\<close> is \<^verbatim>\<open>_guid\<close>.
\<close>

record endpoint =
  name :: "string option"
  source :: string
  target :: string
  initialName :: "string option"
  oldName :: "string option"
  originalTarget :: "string option"
  pkgMeta :: "pkg_meta option"
  canonicalDir :: "string option"
  dependants :: "ref list"
  dependencies :: "nat option"
  newly :: bool
  unresolvable :: bool
  untargetable :: bool
  linked :: bool
  promise :: bool
  eguid :: "guid option"

text \<open>The value \<^verbatim>\<open>toData\<close> builds.\<close>

datatype data = Data
  (d_name: "string option") (d_source: string) (d_target: string)
  (d_canonicalDir: "string option") (d_pkgMeta: "pkg_meta option")
  (d_extra: "string list")
  (d_dependencies: "(string \<times> data) list option")
  (d_nrDependants: nat)

text \<open>A pick as the conflict messages show it: its data and its dependants' data.\<close>

record data_pick =
  pick_data :: data
  pick_dependants :: "data list"

text \<open>
  Errors: a TypeError of the runtime, the two errors Manager.js creates with
  \<^verbatim>\<open>createError\<close>, an error the repository's fetch failed with, and the value
  \<^verbatim>\<open>undefined\<close> where a promise is rejected with it.
\<close>

datatype js_error =
    TypeError
  | EWORKING
  | ECONFLICT string "data_pick list"
  | FetchFailed string
  | Undefined

section \<open>\<^verbatim>\<open>Manager.prototype._getCap\<close>\<close>

record cap =
  cap_version :: "string option"
  cap_comparator :: "string option"

definition empty_cap :: cap where
  "empty_cap = \<lparr>cap_version = None, cap_comparator = None\<rparr>"




section \<open>\<^verbatim>\<open>Manager.prototype._areCompatible\<close>\<close>




text \<open>
  Values of the semver library (version 2, whose \<^verbatim>\<open>toComparators\<close> the comment above
  \<^verbatim>\<open>_getCap\<close> quotes) at the few strings the examples below use.
\<close>

definition sample_rank :: "string \<Rightarrow> nat" where
  "sample_rank v =
     (if v = ''1.0.0-0'' then 1 else if v = ''1.0.0'' then 2
      else if v = ''1.1.0-0'' then 3 else if v = ''1.2.0-0'' then 4
      else if v = ''1.3.0-0'' then 5 else if v = ''2.0.0'' then 6 else 0)"

definition sample_satisfies :: "string \<Rightarrow> string \<Rightarrow> bool" where
  "sample_satisfies v r =
     (if r = ''1.0.0'' then v = ''1.0.0''
      else if r = ''2.0.0'' then v = ''2.0.0''
      else if r = ''~1.0.0'' then v = ''1.0.0''
      else if r = ''>=1.0.0'' then v = ''1.0.0'' \<or> v = ''2.0.0''
      else if r = ''*'' then v = ''1.0.0'' \<or> v = ''2.0.0''
      else False)"

definition sample_comparators :: "string \<Rightarrow> string list list" where
  "sample_comparators r =
     (if r = ''1.0.0'' then [[''1.0.0'']]
      else if r = ''2.0.0'' then [[''2.0.0'']]
      else if r = ''~1.0.0'' then [[''>=1.0.0-0'', ''<1.1.0-0'']]
      else if r = ''~1.2.0'' then [[''>=1.2.0-0'', ''<1.3.0-0'']]
      else if r = ''>=1.0.0 <1.3.0-0'' then [[''>=1.0.0'', ''<1.3.0-0'']]
      else if r = ''>=1.0.0'' then [[''>=1.0.0'']]
      else if r = ''>= 1.0.0'' then [[''>=1.0.0'']]
      else if r = ''>=2.0.0'' then [[''>=2.0.0'']]
      else if r = ''<1.3.0-0'' then [[''<1.3.0-0'']]
      else if r = ''*'' then [[[]]]
      else [])"

definition sample_semver :: semver where
  "sample_semver =
     \<lparr>valid = (\<lambda>t. t = ''1.0.0'' \<or> t = ''2.0.0''),
      validRange = (\<lambda>t. t \<in> set [''1.0.0'', ''2.0.0'', ''~1.0.0'', ''~1.2.0'',
                                   ''>=1.0.0 <1.3.0-0'', ''>=1.0.0'', ''>= 1.0.0'',
                                   ''>=2.0.0'', ''<1.3.0-0'', ''*'']),
      satisfies = sample_satisfies,
      sv_eq = (\<lambda>a b. sample_rank a = sample_rank b),
      sv_gt = (\<lambda>a b. sample_rank a > sample_rank b),
      sv_lt = (\<lambda>a b. sample_rank a < sample_rank b),
      sv_compare = (\<lambda>a b. if sample_rank a < sample_rank b then - 1
                            else if sample_rank a > sample_rank b then 1 else 0),
      sv_rcompare = (\<lambda>a b. if sample_rank b < sample_rank a then - 1
                             else if sample_rank b > sample_rank a then 1 else 0),
      toComparators = sample_comparators\<rparr>"

definition sample_endpoint :: "string \<Rightarrow> endpoint" where
  "sample_endpoint t =
     \<lparr>name = Some ''a'', source = ''a'', target = t, initialName = None, oldName = None,
      originalTarget = None, pkgMeta = None, canonicalDir = None, dependants = [],
      dependencies = None, newly = False, unresolvable = False, untargetable = False,
      linked = False, promise = False, eguid = None\<rparr>"

section \<open>Sorting with a comparator\<close>







text \<open>
  One sort that keeps the contract, used in the examples: each element in turn is put
  into the sorted front of the array, after the elements it is not below.
\<close>

fun insert_sorted :: "('a \<Rightarrow> 'a \<Rightarrow> js_error + int) \<Rightarrow> 'a \<Rightarrow> 'a list \<Rightarrow> js_error + 'a list" where
  "insert_sorted cmp p [] = Inr [p]"
| "insert_sorted cmp p (b # bs) =
     (case cmp p b of
        Inl e \<Rightarrow> Inl e
      | Inr c \<Rightarrow>
          if c < 0 then Inr (p # b # bs)
          else (case insert_sorted cmp p bs of Inl e \<Rightarrow> Inl e | Inr r \<Rightarrow> Inr (b # r)))"

fun insertion_from :: "('a \<Rightarrow> 'a \<Rightarrow> js_error + int) \<Rightarrow> 'a list \<Rightarrow> 'a list \<Rightarrow> js_error + 'a list" where
  "insertion_from cmp front [] = Inr front"
| "insertion_from cmp front (p # rest) =
     (case insert_sorted cmp p front of
        Inl e \<Rightarrow> Inl e
      | Inr front' \<Rightarrow> insertion_from cmp front' rest)"

definition insertion_sort :: "('a \<Rightarrow> 'a \<Rightarrow> js_error + int) \<Rightarrow> 'a list \<Rightarrow> js_error + 'a list" where
  "insertion_sort cmp xs = insertion_from cmp [] xs"

section \<open>The heap and the helpers that are not part of the sources\<close>

text \<open>
  \<open>endpoints\<close> holds the endpoint objects and \<open>depObjs\<close> the dependencies objects (a
  dependencies object maps a dependency's key to an endpoint, in insertion order).
\<close>

record heap =
  endpoints :: "endpoint list"
  depObjs :: "(string \<times> ref) list list"

definition deref :: "'a heap_scheme \<Rightarrow> ref \<Rightarrow> endpoint option" where
  "deref h r = (if r < length (endpoints h) then Some (endpoints h ! r) else None)"

definition depsOf :: "'a heap_scheme \<Rightarrow> nat \<Rightarrow> (string \<times> ref) list option" where
  "depsOf h a = (if a < length (depObjs h) then Some (depObjs h ! a) else None)"

text \<open>
  \<^verbatim>\<open>Utils\<close>, \<^verbatim>\<open>upt-endpoint-parser\<close>, \<^verbatim>\<open>path\<close> and the string functions of the runtime
  are not part of the sources either.  \<open>getGuid\<close> takes the endpoint and the optional
  initial name; \<open>json2decomposed\<close> gives the name, source and target of a dependency;
  \<open>toNumber\<close> is \<^verbatim>\<open>Number\<close> where it yields an integer; \<open>sortPicks\<close> and
  \<open>sortData\<close> are \<^verbatim>\<open>Array.prototype.sort\<close> on an array of endpoints and on an array
  of data.
\<close>

record externals =
  uniqueId :: "endpoint \<Rightarrow> string"
  getGuid :: "endpoint \<Rightarrow> string option \<Rightarrow> guid"
  json2decomposed :: "string \<Rightarrow> string \<Rightarrow> string option \<times> string \<times> string"
  path_join :: "string \<Rightarrow> string \<Rightarrow> string"
  localeCompare :: "string \<Rightarrow> string \<Rightarrow> int"
  toNumber :: "string \<Rightarrow> int option"
  sortPicks :: "(ref \<Rightarrow> ref \<Rightarrow> js_error + int) \<Rightarrow> ref list \<Rightarrow> js_error + ref list"
  sortData :: "(data \<Rightarrow> data \<Rightarrow> js_error + int) \<Rightarrow> data list \<Rightarrow> js_error + data list"

section \<open>\<^verbatim>\<open>Manager.prototype.toData\<close>\<close>

text \<open>
  \<^verbatim>\<open>mout.object.pick(decEndpoint, extraKeys)\<close> filtered by truthiness: of the extra keys,
  those whose property of the endpoint is truthy (the data keeps the keys).
\<close>

definition truthyProp :: "endpoint \<Rightarrow> string \<Rightarrow> bool" where
  "truthyProp e k =
     (if k = ''name'' then truthy (name e)
      else if k = ''source'' then source e \<noteq> []
      else if k = ''target'' then target e \<noteq> []
      else if k = ''initialName'' then truthy (initialName e)
      else if k = ''_oldName'' then truthy (oldName e)
      else if k = ''originalTarget'' then truthy (originalTarget e)
      else if k = ''pkgMeta'' then pkgMeta e \<noteq> None
      else if k = ''canonicalDir'' then truthy (canonicalDir e)
      else if k = ''dependants'' then True
      else if k = ''dependencies'' then dependencies e \<noteq> None
      else if k = ''newly'' then newly e
      else if k = ''unresolvable'' then unresolvable e
      else if k = ''untargetable'' then untargetable e
      else if k = ''linked'' then linked e
      else if k = ''promise'' then promise e
      else if k = ''_guid'' then eguid e \<noteq> None
      else False)"

text \<open>
  What the \<^verbatim>\<open>forEach\<close> over the sorted dependency names gathers.  For one child:
  \<open>None\<close> when the recursive call has not returned, \<open>Some (Inl e)\<close> when it threw,
  \<open>Some (Inr None)\<close> when the cycle guard skipped the child, \<open>Some (Inr (Some d))\<close> its
  data.  The first child that throws or does not return ends the loop.
\<close>

fun gather :: "(string \<times> (js_error + data option) option) list
    \<Rightarrow> (js_error + (string \<times> data) list) option" where
  "gather [] = Some (Inr [])"
| "gather ((k, None) # rest) = None"
| "gather ((k, Some (Inl e)) # rest) = Some (Inl e)"
| "gather ((k, Some (Inr None)) # rest) = gather rest"
| "gather ((k, Some (Inr (Some d))) # rest) =
     (case gather rest of
        None \<Rightarrow> None
      | Some (Inl e) \<Rightarrow> Some (Inl e)
      | Some (Inr ds) \<Rightarrow> Some (Inr ((k, d) # ds)))"

text \<open>
  \<^verbatim>\<open>toData\<close> recurses through the heap, so the model counts the depth of the recursion
  down: with no depth left the call has not returned (\<open>None\<close>).  A name that is not an
  object of the heap stands for \<^verbatim>\<open>undefined\<close>, whose properties cannot be read.
\<close>

fun toData :: "nat \<Rightarrow> externals \<Rightarrow> 'a heap_scheme \<Rightarrow> ref \<Rightarrow> string list \<Rightarrow> string list
    \<Rightarrow> (js_error + data) option" where
  "toData 0 x h r extraKeys upperDeps = None"
| "toData (Suc n) x h r extraKeys upperDeps =
     (case deref h r of
        None \<Rightarrow> Some (Inl TypeError)
      | Some decEndpoint \<Rightarrow>
          (let ident = uniqueId x decEndpoint;
               finish = (\<lambda>ds. Data (name decEndpoint) (source decEndpoint) (target decEndpoint)
                          (if truthy (canonicalDir decEndpoint)
                           then canonicalDir decEndpoint else None)
                          (if truthy (canonicalDir decEndpoint)
                           then pkgMeta decEndpoint else None)
                          (filter (truthyProp decEndpoint) extraKeys)
                          ds
                          (length (dependants decEndpoint)))
           in case dependencies decEndpoint of
                None \<Rightarrow> Some (Inr (finish None))
              | Some a \<Rightarrow>
                  (case depsOf h a of
                     None \<Rightarrow> Some (Inl TypeError)
                   | Some ds \<Rightarrow>
                       (case gather (map (\<lambda>(nm, c).
                                 (nm, case deref h c of
                                        None \<Rightarrow> Some (Inl TypeError)
                                      | Some depDecEndpoint \<Rightarrow>
                                          if uniqueId x depDecEndpoint \<in> set upperDeps
                                          then Some (Inr None)
                                          else map_option (map_sum id Some)
                                                 (toData n x h c extraKeys
                                                    (upperDeps @ [ident]))))
                               (sort_key fst ds)) of
                          None \<Rightarrow> None
                        | Some (Inl e) \<Rightarrow> Some (Inl e)
                        | Some (Inr dd) \<Rightarrow> Some (Inr (finish (Some dd)))))))"

text \<open>A recursion depth that is always enough (see \<open>toData_enough\<close> below).\<close>

definition toData_depth :: "'a heap_scheme \<Rightarrow> nat" where
  "toData_depth h = 2 * length (endpoints h) + 2"

text \<open>
  The quantity that decreases along the recursion of \<^verbatim>\<open>toData\<close>: twice the number of
  unique ids of the heap that are not in the ancestor chain, plus one when the endpoint's
  own id is already in the chain (a child with its parent's id, such as a self-loop).
\<close>

definition toData_measure :: "externals \<Rightarrow> 'a heap_scheme \<Rightarrow> ref \<Rightarrow> string list \<Rightarrow> nat" where
  "toData_measure x h r upperDeps =
     2 * card (uniqueId x ` set (endpoints h) - set upperDeps)
     + (case deref h r of None \<Rightarrow> 0
        | Some e \<Rightarrow> if uniqueId x e \<in> set upperDeps then 1 else 0)"

text \<open>Sample helpers, and a heap with a self-loop and a cycle of two endpoints.\<close>

definition sample_externals :: externals where
  "sample_externals =
     \<lparr>uniqueId = (\<lambda>e. source e @ ''#'' @ target e),
      getGuid = (\<lambda>e ini.
         \<lparr>rId = (case name e of Some n \<Rightarrow> n | None \<Rightarrow> source e),
          fId = source e @ ''#'' @ target e,
          gId = (case name e of Some n \<Rightarrow> n | None \<Rightarrow> []) @ ''='' @ source e
                  @ ''#'' @ target e\<rparr>),
      json2decomposed = (\<lambda>k v. (Some k, k, v)),
      path_join = (\<lambda>a b. a @ ''/'' @ b),
      localeCompare = (\<lambda>a b. if a < b then - 1 else if b < a then 1 else 0),
      toNumber = (\<lambda>s. if s = ''1'' then Some 1 else if s = ''2'' then Some 2 else None),
      sortPicks = insertion_sort,
      sortData = insertion_sort\<rparr>"

definition cyclic_heap :: heap where
  "cyclic_heap =
     \<lparr>endpoints =
        [(sample_endpoint ''1.0.0'')\<lparr>name := Some ''a'', source := ''a'', dependencies := Some 0\<rparr>,
         (sample_endpoint ''2.0.0'')\<lparr>name := Some ''b'', source := ''b'', dependencies := Some 1\<rparr>],
      depObjs = [[(''b'', 1), (''a'', 0)], [(''a'', 0)]]\<rparr>"

section \<open>The Manager object\<close>

text \<open>\<^verbatim>\<open>_nrFetching\<close> is a number that the fail-fast timer sets to \<^verbatim>\<open>Infinity\<close>.\<close>

datatype jsnum = Num int | Infinity

definition num_add :: "jsnum \<Rightarrow> int \<Rightarrow> jsnum" where
  "num_add v k = (case v of Num i \<Rightarrow> Num (i + k) | Infinity \<Rightarrow> Infinity)"

definition num_le_zero :: "jsnum \<Rightarrow> bool" where
  "num_le_zero v = (case v of Num i \<Rightarrow> i \<le> 0 | Infinity \<Rightarrow> False)"

record config =
  production :: bool
  interactive :: bool
  force :: bool

datatype log_entry = Info string string | Warn string string | Conflict string string

datatype deferred_state = Pending | Resolved | Rejected js_error

datatype json_key = Dependencies | DevDependencies

record pending_dep =
  pd_decEndpoint :: ref
  pd_pkgMeta :: pkg_meta
  pd_jsonKey :: json_key
  pd_promiseList :: "ref list"

text \<open>
  The fields of a Manager.  A table is an association list in insertion order (the order in
  which \<^verbatim>\<open>forOwn\<close> visits the keys); an array that a table holds is named by its key.
  The fields that \<^verbatim>\<open>resolve\<close> resets are read from the first \<^verbatim>\<open>resolve\<close> on; \<open>working\<close>,
  which nothing sets before it is read, starts false, and \<open>pendingDep\<close>, which no line of
  Manager.js creates, is \<open>None\<close> unless it is set from outside.  The last four fields record what the Manager asks of the outside: the calls of
  \<^verbatim>\<open>repository.fetch\<close>, the \<^verbatim>\<open>_dissect\<close> calls handed to \<^verbatim>\<open>process.nextTick\<close>, the
  moves handed to \<^verbatim>\<open>mv\<close>, and the calls of the logger.
\<close>

record manager = heap +
  config :: config
  componentsDir :: string
  conflicted :: "string set"
  resolved :: "(string \<times> ref list) list"
  installed :: "(string \<times> pkg_meta) list"
  renamed :: "(string \<times> string) list"
  targets :: "ref list"
  incompatibles :: "(string \<times> ref list) list"
  resolutions :: "(string \<times> string) list"
  forceLatest :: bool
  working :: bool
  fetching :: "(string \<times> ref list) list"
  nrFetching :: jsnum
  failed :: "(string \<times> js_error list) list"
  hasFailed :: bool
  failFastTimeout :: bool
  pendingDep :: "(string \<times> pending_dep) list option"
  deferred :: "deferred_state option"
  dissected :: "(string \<times> ref) list"
  repoFetches :: "ref list"
  dissectTicks :: nat
  moves :: "(string \<times> string) list"
  logged :: "log_entry list"

definition logs :: "log_entry \<Rightarrow> manager \<Rightarrow> manager" where
  "logs l m = m\<lparr>logged := logged m @ [l]\<rparr>"

text \<open>\<^verbatim>\<open>picks[i]\<close> for an integer \<open>i\<close>: \<^verbatim>\<open>undefined\<close> out of range.\<close>

definition js_index :: "'a list \<Rightarrow> int \<Rightarrow> 'a option" where
  "js_index xs i = (if 0 \<le> i \<and> i < int (length xs) then Some (xs ! nat i) else None)"

section \<open>\<^verbatim>\<open>Manager.prototype._storeResolution\<close>\<close>

text \<open>\<^verbatim>\<open>pick._guid || Utils.getGuid(pick)\<close>, and the value of lines 994 to 998.\<close>

definition pickGuid :: "externals \<Rightarrow> endpoint \<Rightarrow> guid" where
  "pickGuid x p = (case eguid p of Some g \<Rightarrow> g | None \<Rightarrow> getGuid x p None)"

definition resolutionOf :: "endpoint \<Rightarrow> js_error + string" where
  "resolutionOf p =
     (if target p = ''*''
      then (case pkgMeta p of
              None \<Rightarrow> Inl TypeError
            | Some pm \<Rightarrow> Inr (if truthy (release pm) then the (release pm) else ''*''))
      else Inr (target p))"

definition savedEntry :: "string \<Rightarrow> string \<Rightarrow> log_entry" where
  "savedEntry rid resolution =
     Info ''resolution'' (''Saved '' @ rid @ ''#'' @ resolution @ '' as resolution'')"

definition storeResolution :: "externals \<Rightarrow> manager \<Rightarrow> ref option \<Rightarrow> js_error + manager" where
  "storeResolution x m pick =
     (case pick of
        None \<Rightarrow> Inl TypeError
      | Some r \<Rightarrow>
          (case deref m r of
             None \<Rightarrow> Inl TypeError
           | Some p \<Rightarrow>
               (case resolutionOf p of
                  Inl e \<Rightarrow> Inl e
                | Inr resolution \<Rightarrow>
                    Inr ((logs (savedEntry (rId (pickGuid x p)) resolution) m)
                         \<lparr>resolutions :=
                            AList.update (rId (pickGuid x p)) resolution (resolutions m)\<rparr>))))"

section \<open>\<^verbatim>\<open>Manager.prototype._electSuitable\<close>\<close>

text \<open>\<^verbatim>\<open>pick.pkgMeta.version\<close> and \<^verbatim>\<open>pick.pkgMeta._release\<close>.\<close>

definition pickMeta :: "'a heap_scheme \<Rightarrow> ref \<Rightarrow> js_error + pkg_meta" where
  "pickMeta h r =
     (case deref h r of
        None \<Rightarrow> Inl TypeError
      | Some e \<Rightarrow> (case pkgMeta e of None \<Rightarrow> Inl TypeError | Some pm \<Rightarrow> Inr pm))"

text \<open>
  \<^verbatim>\<open>semver.satisfies(version, range)\<close> for a version that may be missing: the library
  answers false to a version that is not truthy.
\<close>

definition satisfiesV :: "semver \<Rightarrow> string option \<Rightarrow> string \<Rightarrow> bool" where
  "satisfiesV sv v rng = (truthy v \<and> satisfies sv (the v) rng)"

text \<open>
  The \<^verbatim>\<open>every\<close> of line 820: is every endpoint of the list the subject itself, or one
  whose target the subject's version satisfies?
\<close>

fun everySatisfied :: "semver \<Rightarrow> 'a heap_scheme \<Rightarrow> ref \<Rightarrow> ref list \<Rightarrow> js_error + bool" where
  "everySatisfied sv h subject [] = Inr True"
| "everySatisfied sv h subject (d # ds) =
     (if subject = d then everySatisfied sv h subject ds
      else (case pickMeta h subject of
              Inl e \<Rightarrow> Inl e
            | Inr pm \<Rightarrow>
                (case deref h d of
                   None \<Rightarrow> Inl TypeError
                 | Some decEndpoint \<Rightarrow>
                     if satisfiesV sv (version pm) (target decEndpoint)
                     then everySatisfied sv h subject ds
                     else Inr False)))"

text \<open>The \<^verbatim>\<open>mout.array.find\<close> of line 819 over the subjects that remain.\<close>

fun findSuitable :: "semver \<Rightarrow> 'a heap_scheme \<Rightarrow> ref list \<Rightarrow> ref list \<Rightarrow> js_error + ref option" where
  "findSuitable sv h semvers [] = Inr None"
| "findSuitable sv h semvers (subject # rest) =
     (case everySatisfied sv h subject semvers of
        Inl e \<Rightarrow> Inl e
      | Inr True \<Rightarrow> Inr (Some subject)
      | Inr False \<Rightarrow> findSuitable sv h semvers rest)"

text \<open>The comparator of line 838.\<close>

definition pickCompare :: "semver \<Rightarrow> 'a heap_scheme \<Rightarrow> ref \<Rightarrow> ref \<Rightarrow> js_error + int" where
  "pickCompare sv h pick1 pick2 =
     (case pickMeta h pick1 of
        Inl e \<Rightarrow> Inl e
      | Inr pm1 \<Rightarrow>
     (case pickMeta h pick2 of
        Inl e \<Rightarrow> Inl e
      | Inr pm2 \<Rightarrow>
          (let version1 = version pm1; version2 = version pm2;
               n1 = length (dependants (the (deref h pick1)));
               n2 = length (dependants (the (deref h pick2)));
               byDependants = (if n1 > n2 then - 1 else if n1 < n2 then 1 else 0)
           in if truthy version1 \<and> truthy version2 then
                (let comp = sv_compare sv (the version1) (the version2)
                 in if comp \<noteq> 0 then Inr comp else Inr byDependants)
              else if truthy version1 then Inr 1
              else if truthy version2 then Inr (- 1)
              else Inr byDependants)))"

text \<open>
  The data of the picks (line 871).  \<^verbatim>\<open>pick.dependants.map(this.toData, this)\<close> calls
  \<^verbatim>\<open>toData(dependant, index, array)\<close>: the index picks no key, and the array of
  endpoints, taken for the ancestor chain, holds no unique id.
\<close>

fun sequence :: "(js_error + 'a) list \<Rightarrow> js_error + 'a list" where
  "sequence [] = Inr []"
| "sequence (Inl e # rest) = Inl e"
| "sequence (Inr a # rest) = (case sequence rest of Inl e \<Rightarrow> Inl e | Inr as \<Rightarrow> Inr (a # as))"

definition toDataNow :: "externals \<Rightarrow> 'a heap_scheme \<Rightarrow> ref \<Rightarrow> js_error + data" where
  "toDataNow x h r =
     (case toData (toData_depth h) x h r [] [] of None \<Rightarrow> Inl TypeError | Some res \<Rightarrow> res)"

definition nameCompare :: "externals \<Rightarrow> data \<Rightarrow> data \<Rightarrow> js_error + int" where
  "nameCompare x dependant1 dependant2 =
     (case d_name dependant1 of
        None \<Rightarrow> Inl TypeError
      | Some n1 \<Rightarrow>
          Inr (localeCompare x n1
                 (case d_name dependant2 of None \<Rightarrow> ''undefined'' | Some n2 \<Rightarrow> n2)))"

definition dataPick :: "externals \<Rightarrow> 'a heap_scheme \<Rightarrow> ref \<Rightarrow> js_error + data_pick" where
  "dataPick x h pick =
     (case toDataNow x h pick of
        Inl e \<Rightarrow> Inl e
      | Inr d \<Rightarrow>
          (case sequence (map (toDataNow x h) (dependants (the (deref h pick)))) of
             Inl e \<Rightarrow> Inl e
           | Inr ds \<Rightarrow>
               (case sortData x (nameCompare x) ds of
                  Inl e \<Rightarrow> Inl e
                | Inr ordered \<Rightarrow> Inr \<lparr>pick_data = d, pick_dependants = ordered\<rparr>)))"

definition dataPicks :: "externals \<Rightarrow> 'a heap_scheme \<Rightarrow> ref list \<Rightarrow> js_error + data_pick list" where
  "dataPicks x h picks = sequence (map (dataPick x h) picks)"

text \<open>
  The two \<^verbatim>\<open>findIndex\<close> calls of the stored resolution (lines 893 and 901), as the index
  of the first pick that matches.
\<close>

fun findIndexE :: "('a \<Rightarrow> js_error + bool) \<Rightarrow> 'a list \<Rightarrow> js_error + nat option" where
  "findIndexE p [] = Inr None"
| "findIndexE p (a # as) =
     (case p a of
        Inl e \<Rightarrow> Inl e
      | Inr True \<Rightarrow> Inr (Some 0)
      | Inr False \<Rightarrow>
          (case findIndexE p as of
             Inl e \<Rightarrow> Inl e
           | Inr None \<Rightarrow> Inr None
           | Inr (Some i) \<Rightarrow> Inr (Some (Suc i))))"

definition rangeMatch :: "semver \<Rightarrow> 'a heap_scheme \<Rightarrow> string \<Rightarrow> ref \<Rightarrow> js_error + bool" where
  "rangeMatch sv h resolution pick =
     (case pickMeta h pick of
        Inl e \<Rightarrow> Inl e
      | Inr pm \<Rightarrow> Inr (truthy (version pm) \<and> satisfies sv (the (version pm)) resolution))"

definition exactMatch :: "'a heap_scheme \<Rightarrow> string \<Rightarrow> ref \<Rightarrow> js_error + bool" where
  "exactMatch h resolution pick =
     (case deref h pick of
        None \<Rightarrow> Inl TypeError
      | Some p \<Rightarrow>
          if target p = resolution then Inr True
          else (case pkgMeta p of
                  None \<Rightarrow> Inl TypeError
                | Some pm \<Rightarrow> Inr (release pm = Some resolution)))"

definition resolutionIndex :: "semver \<Rightarrow> 'a heap_scheme \<Rightarrow> string \<Rightarrow> ref list
    \<Rightarrow> js_error + nat option" where
  "resolutionIndex sv h resolution picks =
     (case (if validRange sv resolution then findIndexE (rangeMatch sv h resolution) picks
            else Inr None) of
        Inl e \<Rightarrow> Inl e
      | Inr (Some i) \<Rightarrow> Inr (Some i)
      | Inr None \<Rightarrow> findIndexE (exactMatch h resolution) picks)"

text \<open>
  \<^verbatim>\<open>mout.object.find(picks, ...)\<close> of line 884: is some pick unresolvable?
\<close>

fun anyUnresolvable :: "'a heap_scheme \<Rightarrow> ref list \<Rightarrow> js_error + bool" where
  "anyUnresolvable h [] = Inr False"
| "anyUnresolvable h (p # ps) =
     (case deref h p of
        None \<Rightarrow> Inl TypeError
      | Some e \<Rightarrow> if unresolvable e then Inr True else anyUnresolvable h ps)"

text \<open>
  The answer of the prompt: \<^verbatim>\<open>choice.trim()\<close>, the test for a leading or trailing
  \<^verbatim>\<open>!\<close>, and \<^verbatim>\<open>mout.string.trim(choice, '!')\<close>.
\<close>

definition js_space :: "char \<Rightarrow> bool" where
  "js_space c = (c \<in> set [CHR 0x09, CHR 0x0A, CHR 0x0B, CHR 0x0C, CHR 0x0D, CHR '' ''])"

definition strip :: "(char \<Rightarrow> bool) \<Rightarrow> string \<Rightarrow> string" where
  "strip p s = rev (dropWhile p (rev (dropWhile p s)))"

definition bang :: "string \<Rightarrow> bool" where
  "bang s = (s \<noteq> [] \<and> (hd s = CHR ''!'' \<or> last s = CHR ''!''))"

text \<open>
  The stored resolution of lines 883 to 922: none that counts (none stored, an empty one,
  or some pick unresolvable), one that matches no pick, or the index of the pick it chooses.
\<close>

datatype stored = NoResolution | Unsuitable string | Suitable nat

definition storedResolution :: "semver \<Rightarrow> manager \<Rightarrow> string \<Rightarrow> ref list \<Rightarrow> js_error + stored" where
  "storedResolution sv m rid picks =
     (case anyUnresolvable m picks of
        Inl e \<Rightarrow> Inl e
      | Inr unres \<Rightarrow>
          (case map_of (resolutions m) rid of
             None \<Rightarrow> Inr NoResolution
           | Some resolution \<Rightarrow>
               if resolution \<noteq> [] \<and> \<not> unres then
                 (case resolutionIndex sv m resolution picks of
                    Inl e \<Rightarrow> Inl e
                  | Inr None \<Rightarrow> Inr (Unsuitable resolution)
                  | Inr (Some i) \<Rightarrow> Inr (Suitable i))
               else Inr NoResolution))"

text \<open>
  Lines 805 to 831: either a suitable endpoint is elected at once, or there is a conflict
  among the picks.
\<close>

datatype first_pass = Elected ref | ConflictAmong "ref list"

definition firstPass :: "semver \<Rightarrow> 'a heap_scheme \<Rightarrow> ref list \<Rightarrow> ref list
    \<Rightarrow> js_error + first_pass" where
  "firstPass sv h semvers nonSemvers =
     (if semvers \<noteq> [] \<and> nonSemvers \<noteq> [] then Inr (ConflictAmong (semvers @ nonSemvers))
      else if nonSemvers \<noteq> [] then
        (if length nonSemvers = 1 then Inr (Elected (hd nonSemvers))
         else Inr (ConflictAmong nonSemvers))
      else
        (case findSuitable sv h semvers semvers of
           Inl e \<Rightarrow> Inl e
         | Inr (Some suitable) \<Rightarrow> Inr (Elected suitable)
         | Inr None \<Rightarrow> Inr (ConflictAmong semvers)))"

text \<open>
  What \<^verbatim>\<open>_electSuitable\<close> does once the conflict is known (from line 833 on).  The
  result is the error thrown or the pick the promise resolves with (\<open>None\<close> for
  \<^verbatim>\<open>undefined\<close>), and the Manager as the call leaves it.  \<open>answer\<close> is what the user
  types when the prompt is shown.
\<close>

definition solvedEntry :: "string \<Rightarrow> log_entry" where
  "solvedEntry rid = Conflict ''solved'' (''Unable to find suitable version for '' @ rid)"

definition incompatibleEntry :: "string \<Rightarrow> log_entry" where
  "incompatibleEntry rid =
     Conflict ''incompatible'' (''Unable to find suitable version for '' @ rid)"

definition unsuitableEntry :: "string \<Rightarrow> string \<Rightarrow> log_entry" where
  "unsuitableEntry rid resolution =
     Warn ''resolution'' (''Unsuitable resolution declared for '' @ rid @ '': '' @ resolution)"

definition resolveConflict :: "semver \<Rightarrow> externals \<Rightarrow> string \<Rightarrow> manager \<Rightarrow> string \<Rightarrow> ref list
    \<Rightarrow> (js_error + ref option) \<times> manager" where
  "resolveConflict sv x answer m0 rid picks0 =
     (let m = m0\<lparr>conflicted := insert rid (conflicted m0)\<rparr> in
      case sortPicks x (pickCompare sv m) picks0 of
        Inl e \<Rightarrow> (Inl e, m)
      | Inr picks \<Rightarrow>
      (case dataPicks x m picks of
        Inl e \<Rightarrow> (Inl e, m)
      | Inr dps \<Rightarrow>
      (case storedResolution sv m rid picks of
        Inl e \<Rightarrow> (Inl e, m)
      | Inr (Suitable i) \<Rightarrow> (Inr (Some (picks ! i)), logs (solvedEntry rid) m)
      | Inr other \<Rightarrow>
          (let m1 = (case other of
                       Unsuitable resolution \<Rightarrow> logs (unsuitableEntry rid resolution) m
                     | _ \<Rightarrow> m)
           in
          if forceLatest m1 then
            (let suitable = js_index picks (int (length picks) - 1);
                 m2 = logs (solvedEntry rid) m1
             in case storeResolution x m2 suitable of
                  Inl e \<Rightarrow> (Inl e, m2)
                | Inr m3 \<Rightarrow> (Inr suitable, m3))
          else if \<not> interactive (config m1) then
            (Inl (ECONFLICT rid dps), m1)
          else
            (let m2 = logs (incompatibleEntry rid) m1;
                 choice = strip js_space answer;
                 save = bang choice;
                 pick = (case toNumber x (strip (\<lambda>c. c = CHR ''!'') choice) of
                           None \<Rightarrow> None
                         | Some n \<Rightarrow> js_index picks (n - 1))
             in if save then
                  (case storeResolution x m2 pick of
                     Inl e \<Rightarrow> (Inl e, m2)
                   | Inr m3 \<Rightarrow> (Inr pick, m3))
                else (Inr pick, m2))))))"

definition electSuitable :: "semver \<Rightarrow> externals \<Rightarrow> string \<Rightarrow> manager \<Rightarrow> string \<Rightarrow> ref list
    \<Rightarrow> ref list \<Rightarrow> (js_error + ref option) \<times> manager" where
  "electSuitable sv x answer m rid semvers nonSemvers =
     (case firstPass sv m semvers nonSemvers of
        Inl e \<Rightarrow> (Inl e, m)
      | Inr (Elected suitable) \<Rightarrow> (Inr (Some suitable), m)
      | Inr (ConflictAmong picks) \<Rightarrow> resolveConflict sv x answer m rid picks)"

section \<open>Conditions named in the properties\<close>

text \<open>The endpoint is an object of the heap with a \<^verbatim>\<open>pkgMeta\<close>.\<close>

definition hasMeta :: "'a heap_scheme \<Rightarrow> ref \<Rightarrow> bool" where
  "hasMeta h r = (case pickMeta h r of Inl e \<Rightarrow> False | Inr pm \<Rightarrow> True)"

definition versionOf :: "'a heap_scheme \<Rightarrow> ref \<Rightarrow> string option" where
  "versionOf h r = (case pickMeta h r of Inl e \<Rightarrow> None | Inr pm \<Rightarrow> version pm)"

definition targetOf :: "'a heap_scheme \<Rightarrow> ref \<Rightarrow> string" where
  "targetOf h r = (case deref h r of None \<Rightarrow> [] | Some e \<Rightarrow> target e)"

text \<open>The version of \<open>s\<close> satisfies the target of every other candidate.\<close>

definition suitsAll :: "semver \<Rightarrow> 'a heap_scheme \<Rightarrow> ref list \<Rightarrow> ref \<Rightarrow> bool" where
  "suitsAll sv h semvers s =
     (\<forall>d \<in> set semvers. d \<noteq> s \<longrightarrow> satisfiesV sv (versionOf h s) (targetOf h d))"






















text \<open>For the proofs: the cap of a token, and the cap kept while the tokens are read.\<close>

definition capOf :: "(string \<times> string) option \<Rightarrow> cap" where
  "capOf t = (case t of None \<Rightarrow> empty_cap
              | Some (p, v) \<Rightarrow> \<lparr>cap_version = Some v, cap_comparator = Some p\<rparr>)"



text \<open>A Manager as the constructor leaves it, with a given heap.\<close>

definition new_manager :: "endpoint list \<Rightarrow> (string \<times> ref) list list \<Rightarrow> manager" where
  "new_manager es ds =
     \<lparr>endpoints = es, depObjs = ds,
      config = \<lparr>production = False, interactive = False, force = False\<rparr>,
      componentsDir = ''components'', conflicted = {}, resolved = [], installed = [],
      renamed = [], targets = [], incompatibles = [], resolutions = [],
      forceLatest = False, working = False, fetching = [], nrFetching = Num 0,
      failed = [], hasFailed = False, failFastTimeout = False, pendingDep = None,
      deferred = None, dissected = [], repoFetches = [], dissectTicks = 0, moves = [],
      logged = []\<rparr>"

definition sample_meta :: "string \<Rightarrow> string \<Rightarrow> pkg_meta" where
  "sample_meta n v =
     \<lparr>pkgName = n, version = Some v, release = Some v, metaTarget = None,
      originalSource = None, deps = [], devDeps = []\<rparr>"

text \<open>
  Two fetched revisions of package \<^verbatim>\<open>a\<close>: version 1.0.0 asked for as \<^verbatim>\<open>~1.0.0\<close> and
  version 2.0.0 asked for as \<open>t\<close>.
\<close>

definition two_versions :: "string \<Rightarrow> manager" where
  "two_versions t =
     new_manager
       [(sample_endpoint ''~1.0.0'')\<lparr>pkgMeta := Some (sample_meta ''a'' ''1.0.0'')\<rparr>,
        (sample_endpoint t)\<lparr>pkgMeta := Some (sample_meta ''a'' ''2.0.0'')\<rparr>] []"





section \<open>\<^verbatim>\<open>Manager.prototype._dissect\<close>\<close>

text \<open>\<^verbatim>\<open>filter\<close> with a test that may throw.\<close>

fun filterE :: "('a \<Rightarrow> js_error + bool) \<Rightarrow> 'a list \<Rightarrow> js_error + 'a list" where
  "filterE p [] = Inr []"
| "filterE p (a # as) =
     (case p a of
        Inl e \<Rightarrow> Inl e
      | Inr keep \<Rightarrow>
          (case filterE p as of
             Inl e \<Rightarrow> Inl e
           | Inr r \<Rightarrow> Inr (if keep then a # r else r)))"

text \<open>\<^verbatim>\<open>!!decEndpoint.pkgMeta.version\<close>, and its negation (lines 700 and 733).\<close>

definition hasVersion :: "'a heap_scheme \<Rightarrow> ref \<Rightarrow> js_error + bool" where
  "hasVersion h r =
     (case pickMeta h r of Inl e \<Rightarrow> Inl e | Inr pm \<Rightarrow> Inr (truthy (version pm)))"

definition hasNoVersion :: "'a heap_scheme \<Rightarrow> ref \<Rightarrow> js_error + bool" where
  "hasNoVersion h r =
     (case pickMeta h r of Inl e \<Rightarrow> Inl e | Inr pm \<Rightarrow> Inr (\<not> truthy (version pm)))"

text \<open>
  The comparator of line 704; \<^verbatim>\<open>semver.rcompare\<close> throws a TypeError when a version
  is missing.
\<close>

definition semverCompare :: "semver \<Rightarrow> 'a heap_scheme \<Rightarrow> ref \<Rightarrow> ref \<Rightarrow> js_error + int" where
  "semverCompare sv h first second =
     (case pickMeta h first of
        Inl e \<Rightarrow> Inl e
      | Inr pm1 \<Rightarrow>
     (case pickMeta h second of
        Inl e \<Rightarrow> Inl e
      | Inr pm2 \<Rightarrow>
          if \<not> truthy (version pm1) \<or> \<not> truthy (version pm2) then Inl TypeError
          else
            (let result = sv_rcompare sv (the (version pm1)) (the (version pm2))
             in if result = 0 then
                  (if targetOf h first = ''*'' then Inr 1
                   else if targetOf h second = ''*'' then Inr (- 1)
                   else Inr result)
                else Inr result)))"

text \<open>Lines 724 to 729 for one endpoint: the wildcard target becomes \<^verbatim>\<open>~version\<close>.\<close>

definition promote :: "'a heap_scheme \<Rightarrow> ref \<Rightarrow> 'a heap_scheme" where
  "promote h r =
     (case deref h r of
        None \<Rightarrow> h
      | Some decEndpoint \<Rightarrow>
          (case pkgMeta decEndpoint of
             None \<Rightarrow> h
           | Some pm \<Rightarrow>
               if newly decEndpoint \<and> target decEndpoint = ''*''
                    \<and> \<not> untargetable decEndpoint
               then h\<lparr>endpoints := (endpoints h)
                      [r := decEndpoint\<lparr>target := ''~'' @ (case version pm of
                                                           None \<Rightarrow> ''undefined''
                                                         | Some v \<Rightarrow> v),
                                        originalTarget := Some ''*''\<rparr>]\<rparr>
               else h))"

text \<open>
  The body of the \<^verbatim>\<open>forOwn\<close> of line 694 for one package: the heap after the promotions,
  and the arguments of the election that is queued.
\<close>

definition dissectEntry :: "semver \<Rightarrow> externals \<Rightarrow> manager \<Rightarrow> string \<times> ref list
    \<Rightarrow> js_error + manager \<times> (string \<times> ref list \<times> ref list)" where
  "dissectEntry sv x m entry =
     (case filterE (hasVersion m) (snd entry) of
        Inl e \<Rightarrow> Inl e
      | Inr unsorted \<Rightarrow>
     (case sortPicks x (semverCompare sv m) unsorted of
        Inl e \<Rightarrow> Inl e
      | Inr semvers \<Rightarrow>
          (let m1 = fold (\<lambda>r h. promote h r) semvers m
           in case filterE (hasNoVersion m1) (snd entry) of
                Inl e \<Rightarrow> Inl e
              | Inr nonSemvers \<Rightarrow> Inr (m1, (fst entry, semvers, nonSemvers)))))"

fun dissectEntries :: "semver \<Rightarrow> externals \<Rightarrow> manager \<Rightarrow> (string \<times> ref list) list
    \<Rightarrow> js_error + manager \<times> (string \<times> ref list \<times> ref list) list" where
  "dissectEntries sv x m [] = Inr (m, [])"
| "dissectEntries sv x m (entry # rest) =
     (case dissectEntry sv x m entry of
        Inl e \<Rightarrow> Inl e
      | Inr (m1, q) \<Rightarrow>
          (case dissectEntries sv x m1 rest of
             Inl e \<Rightarrow> Inl e
           | Inr (m2, qs) \<Rightarrow> Inr (m2, q # qs)))"

text \<open>
  The chain of elections (line 736), one after the other; \<open>answers\<close> gives what the user
  types at the prompt for a package.  The first election that fails ends the chain.
\<close>

fun elections :: "semver \<Rightarrow> externals \<Rightarrow> (string \<Rightarrow> string) \<Rightarrow> manager
    \<Rightarrow> (string \<times> ref list \<times> ref list) list
    \<Rightarrow> (js_error + (string \<times> ref option) list) \<times> manager" where
  "elections sv x answers m [] = (Inr [], m)"
| "elections sv x answers m ((rid, semvers, nonSemvers) # rest) =
     (case electSuitable sv x (answers rid) m rid semvers nonSemvers of
        (Inl e, m1) \<Rightarrow> (Inl e, m1)
      | (Inr suitable, m1) \<Rightarrow>
          (case elections sv x answers m1 rest of
             (Inl e, m2) \<Rightarrow> (Inl e, m2)
           | (Inr suitables, m2) \<Rightarrow> (Inr ((rid, suitable) # suitables), m2)))"

text \<open>Lines 748 to 760: the resolutions of packages that are not conflicted are removed.\<close>

definition removedEntry :: "string \<Rightarrow> string \<Rightarrow> log_entry" where
  "removedEntry rid resolution =
     Info ''resolution'' (''Removed unnecessary '' @ rid @ ''#'' @ resolution @ '' resolution'')"

fun sweep :: "manager \<Rightarrow> (string \<times> string) list \<Rightarrow> manager" where
  "sweep m [] = m"
| "sweep m ((rid, resolution) # rest) =
     (if rid \<in> conflicted m then sweep m rest
      else sweep ((logs (removedEntry rid resolution) m)
                    \<lparr>resolutions := AList.delete rid (resolutions m)\<rparr>) rest)"

text \<open>
  The filter of line 763: does the elected endpoint need to be installed?
  \<open>isDtUpdated\<close> is \<^verbatim>\<open>_isDtUpdated\<close>, which asks the file system.
\<close>

definition needsInstall :: "externals \<Rightarrow> (string \<Rightarrow> bool) \<Rightarrow> manager \<Rightarrow> string \<times> ref option
    \<Rightarrow> js_error + bool" where
  "needsInstall x isDtUpdated m entry =
     (case snd entry of
        None \<Rightarrow> Inl TypeError
      | Some r \<Rightarrow>
     (case deref m r of
        None \<Rightarrow> Inl TypeError
      | Some decEndpoint \<Rightarrow>
          (let dst = path_join x (componentsDir m) (fst entry) in
           if linked decEndpoint then Inr False
           else if Some dst = canonicalDir decEndpoint \<and> \<not> isDtUpdated dst then Inr False
           else (case map_of (installed m) (fst entry) of
                   None \<Rightarrow> Inr True
                 | Some installedMeta \<Rightarrow>
                     if metaTarget installedMeta \<noteq> Some (target decEndpoint) then Inr True
                     else if originalSource installedMeta \<noteq> Some (source decEndpoint)
                       then Inr True
                     else (case pkgMeta decEndpoint of
                             None \<Rightarrow> Inl TypeError
                           | Some pm \<Rightarrow>
                               if release installedMeta = release pm
                               then Inr (force (config m)) else Inr True)))))"

text \<open>
  Settling the promise of \<^verbatim>\<open>resolve\<close>: a promise that is already settled stays as it
  is.
\<close>

definition settle :: "deferred_state \<Rightarrow> manager \<Rightarrow> manager" where
  "settle d m = (if deferred m = Some Pending then m\<lparr>deferred := Some d\<rparr> else m)"

text \<open>
  \<^verbatim>\<open>_dissect\<close>.  An error thrown by the synchronous part leaves the call (\<open>Inl\<close>);
  otherwise the Manager is returned, with the promise of \<^verbatim>\<open>resolve\<close> settled in
  \<open>deferred\<close>.  The keys of \<open>resolved\<close> are distinct, so the elected endpoints are
  gathered in the order of the keys.
\<close>

definition dissect :: "semver \<Rightarrow> externals \<Rightarrow> (string \<Rightarrow> bool) \<Rightarrow> (string \<Rightarrow> string) \<Rightarrow> manager
    \<Rightarrow> js_error + manager" where
  "dissect sv x isDtUpdated answers m =
     (if hasFailed m then
        (case failed m of
           [] \<Rightarrow> Inl TypeError
         | (rid, errs) # rest \<Rightarrow>
             if deferred m = None then Inl TypeError
             else Inr (settle (Rejected (case errs of [] \<Rightarrow> Undefined | err # errs' \<Rightarrow> err))
                         (m\<lparr>failFastTimeout := False\<rparr>)))
      else
        (case dissectEntries sv x m (resolved m) of
           Inl e \<Rightarrow> Inl e
         | Inr (m1, queue) \<Rightarrow>
             if deferred m1 = None then Inl TypeError
             else
             (case elections sv x answers m1 queue of
                (Inl e, m2) \<Rightarrow> Inr (settle (Rejected e) m2)
              | (Inr suitables, m2) \<Rightarrow>
                  (let m3 = sweep m2 (resolutions m2) in
                   case filterE (needsInstall x isDtUpdated m3) suitables of
                     Inl e \<Rightarrow> Inr (settle (Rejected e) m3)
                   | Inr needed \<Rightarrow>
                       Inr (settle Resolved
                              (m3\<lparr>dissected := map (\<lambda>(rid, s). (rid, the s)) needed\<rparr>))))))"

section \<open>Properties\<close>


lemmas sample_semver_defs = sample_semver_def sample_comparators_def sample_rank_def
  sample_satisfies_def

subsection \<open>Termination of \<^verbatim>\<open>toData\<close>\<close>

lemma gather_returns:
  "(\<And>k v. (k, v) \<in> set xs \<Longrightarrow> v \<noteq> None) \<Longrightarrow> gather xs \<noteq> None"
proof (induction xs rule: gather.induct)
  case (4 k rest)
  have "gather rest \<noteq> None" by (rule "4.IH") (use "4.prems" in auto)
  then show ?case by simp
next
  case (5 k d rest)
  have "gather rest \<noteq> None" by (rule "5.IH") (use "5.prems" in auto)
  then show ?case by (auto split: option.splits sum.splits)
qed auto

lemma deref_in_heap: "deref h r = Some e \<Longrightarrow> e \<in> set (endpoints h)"
  by (auto simp: deref_def split: if_splits)

lemma toData_measure_child:
  assumes r: "deref h r = Some e" and c: "deref h c = Some ce"
    and fresh: "uniqueId x ce \<notin> set up"
  shows "toData_measure x h c (up @ [uniqueId x e]) < toData_measure x h r up"
proof -
  let ?I = "uniqueId x ` set (endpoints h)"
  have fin: "finite ?I" by simp
  have eI: "uniqueId x e \<in> ?I" using deref_in_heap [OF r] by blast
  show ?thesis
  proof (cases "uniqueId x e \<in> set up")
    case True
    then have "?I - set (up @ [uniqueId x e]) = ?I - set up" by auto
    with True fresh r c show ?thesis by (auto simp: toData_measure_def)
  next
    case False
    have eq: "?I - set (up @ [uniqueId x e]) = (?I - set up) - {uniqueId x e}" by auto
    have mem: "uniqueId x e \<in> ?I - set up" using eI False by simp
    have "card ((?I - set up) - {uniqueId x e}) < card (?I - set up)"
      using mem fin by (meson card_Diff1_less finite_Diff)
    with False r c eq show ?thesis by (simp add: toData_measure_def)
  qed
qed

lemma toData_returns:
  "toData_measure x h r up < n \<Longrightarrow> toData n x h r ek up \<noteq> None"
proof (induction n arbitrary: r up)
  case 0
  then show ?case by simp
next
  case (Suc n)
  show ?case
  proof (cases "deref h r")
    case None
    then show ?thesis by simp
  next
    case (Some e)
    have child: "toData n x h c ek (up @ [uniqueId x e]) \<noteq> None"
      if "deref h c = Some ce" "uniqueId x ce \<notin> set up" for c ce
    proof -
      have "toData_measure x h c (up @ [uniqueId x e]) < toData_measure x h r up"
        using toData_measure_child [OF Some that] .
      with Suc.prems have "toData_measure x h c (up @ [uniqueId x e]) < n" by simp
      then show ?thesis by (rule Suc.IH)
    qed
    have g: "gather (map (\<lambda>(nm, c).
               (nm, case deref h c of
                      None \<Rightarrow> Some (Inl TypeError)
                    | Some depDecEndpoint \<Rightarrow>
                        if uniqueId x depDecEndpoint \<in> set up
                        then Some (Inr None)
                        else map_option (map_sum id Some)
                               (toData n x h c ek (up @ [uniqueId x e]))))
             ds) \<noteq> None" for ds
      by (rule gather_returns) (auto split: option.splits dest: child)
    show ?thesis
    proof (cases "dependencies e")
      case None
      with Some show ?thesis by (simp add: Let_def)
    next
      case a: (Some a)
      show ?thesis
      proof (cases "depsOf h a")
        case None
        with Some a show ?thesis by (simp add: Let_def)
      next
        case ds: (Some ds)
        from g [of "sort_key fst ds"] Some a ds show ?thesis
          by (auto simp: Let_def split: option.splits sum.splits)
      qed
    qed
  qed
qed

lemma toData_measure_bound: "toData_measure x h r up < toData_depth h"
proof -
  have "card (uniqueId x ` set (endpoints h) - set up) \<le> card (uniqueId x ` set (endpoints h))"
    by (simp add: card_mono)
  also have "\<dots> \<le> card (set (endpoints h))" by (simp add: card_image_le)
  also have "\<dots> \<le> length (endpoints h)" by (rule card_length)
  finally show ?thesis
    by (auto simp: toData_measure_def toData_depth_def split: option.splits)
qed

lemma toData_enough: "\<exists>res. toData (toData_depth h + k) x h r ek up = Some res"
proof -
  have "toData_measure x h r up < toData_depth h + k"
    using toData_measure_bound [of x h r up] by simp
  from toData_returns [OF this] show ?thesis by auto
qed

lemma gather_more:
  assumes "gather (map f xs) = Some w"
    and "\<And>a. a \<in> set xs \<Longrightarrow> fst (g a) = fst (f a)"
    and "\<And>a y. a \<in> set xs \<Longrightarrow> snd (f a) = Some y \<Longrightarrow> snd (g a) = Some y"
  shows "gather (map g xs) = Some w"
  using assms
proof (induction xs arbitrary: w)
  case Nil
  then show ?case by simp
next
  case (Cons a xs)
  obtain k v where fa: "f a = (k, v)" by (cases "f a")
  with Cons.prems(1) obtain y where v: "v = Some y" by (cases v) auto
  have ga: "g a = (k, Some y)"
    using Cons.prems(2) [of a] Cons.prems(3) [of a y] fa v by (cases "g a") auto
  show ?case
  proof (cases y)
    case (Inl e)
    with fa v ga Cons.prems(1) show ?thesis by simp
  next
    case (Inr od)
    show ?thesis
    proof (cases od)
      case None
      with Inr fa v ga Cons.prems show ?thesis
        by (auto intro: Cons.IH)
    next
      case (Some d)
      with Inr fa v Cons.prems(1) obtain w' where w': "gather (map f xs) = Some w'"
        by (auto split: option.splits)
      have "gather (map g xs) = Some w'"
        using w' Cons.prems(2,3) by (auto intro: Cons.IH)
      with Some Inr fa v ga Cons.prems(1) w' show ?thesis by simp
    qed
  qed
qed

lemma toData_unfold:
  assumes "deref h r = Some e" "dependencies e = Some a" "depsOf h a = Some ds"
  shows "toData (Suc n) x h r ek up =
    (case gather (map (\<lambda>(nm, c).
               (nm, case deref h c of
                      None \<Rightarrow> Some (Inl TypeError)
                    | Some depDecEndpoint \<Rightarrow>
                        if uniqueId x depDecEndpoint \<in> set up
                        then Some (Inr None)
                        else map_option (map_sum id Some)
                               (toData n x h c ek (up @ [uniqueId x e]))))
             (sort_key fst ds)) of
       None \<Rightarrow> None
     | Some (Inl err) \<Rightarrow> Some (Inl err)
     | Some (Inr dd) \<Rightarrow>
         Some (Inr (Data (name e) (source e) (target e)
                 (if truthy (canonicalDir e) then canonicalDir e else None)
                 (if truthy (canonicalDir e) then pkgMeta e else None)
                 (filter (truthyProp e) ek) (Some dd) (length (dependants e)))))"
  using assms by (simp add: Let_def)

lemma toData_Suc:
  "toData n x h r ek up = Some v \<Longrightarrow> toData (Suc n) x h r ek up = Some v"
proof (induction n arbitrary: r up v)
  case 0
  then show ?case by simp
next
  case (Suc n)
  show ?case
  proof (cases "deref h r")
    case None
    with Suc.prems show ?thesis by simp
  next
    case (Some e)
    show ?thesis
    proof (cases "dependencies e")
      case None
      with Some Suc.prems show ?thesis by (simp add: Let_def)
    next
      case a: (Some a)
      show ?thesis
      proof (cases "depsOf h a")
        case None
        with Some a Suc.prems show ?thesis by (simp add: Let_def)
      next
        case ds: (Some ds)
        let ?f = "\<lambda>m. (\<lambda>(nm, c).
               (nm, case deref h c of
                      None \<Rightarrow> Some (Inl TypeError)
                    | Some depDecEndpoint \<Rightarrow>
                        if uniqueId x depDecEndpoint \<in> set up
                        then Some (Inr None)
                        else map_option (map_sum id Some)
                               (toData m x h c ek (up @ [uniqueId x e]))))"
        from Suc.prems Some a ds obtain w where
          w: "gather (map (?f n) (sort_key fst ds)) = Some w"
          by (auto simp: Let_def split: option.splits)
        have "gather (map (?f (Suc n)) (sort_key fst ds)) = Some w"
          using w
        proof (rule gather_more)
          fix b show "fst (?f (Suc n) b) = fst (?f n b)" by (cases b) simp
        next
          fix b y assume "snd (?f n b) = Some y"
          then show "snd (?f (Suc n) b) = Some y"
            by (cases b) (auto simp del: toData.simps split: option.splits if_splits
                dest!: Suc.IH)
        qed
        moreover from Suc.prems w have "(case Some w of
             None \<Rightarrow> None
           | Some (Inl err) \<Rightarrow> Some (Inl err)
           | Some (Inr dd) \<Rightarrow>
               Some (Inr (Data (name e) (source e) (target e)
                 (if truthy (canonicalDir e) then canonicalDir e else None)
                 (if truthy (canonicalDir e) then pkgMeta e else None)
                 (filter (truthyProp e) ek) (Some dd) (length (dependants e))))) = Some v"
          unfolding toData_unfold [OF Some a ds] by simp
        ultimately show ?thesis
          unfolding toData_unfold [OF Some a ds, of "Suc n"] by simp
      qed
    qed
  qed
qed

lemma toData_more: "toData n x h r ek up = Some v \<Longrightarrow> toData (n + k) x h r ek up = Some v"
  by (induction k) (auto dest: toData_Suc)


lemma toData_result:
  "\<exists>res. \<forall>k. toData (toData_depth h + k) x h r ek up = Some res"
proof -
  obtain res where "toData (toData_depth h + 0) x h r ek up = Some res"
    using toData_enough by blast
  then have "\<forall>k. toData (toData_depth h + k) x h r ek up = Some res"
    using toData_more [of "toData_depth h" x h r ek up res] by simp
  then show ?thesis ..
qed

text \<open>
  Claim C9.  On every heap of endpoints, cyclic or not, and from every ancestor chain,
  \<^verbatim>\<open>toData\<close> returns: a recursion depth of twice the number of endpoints plus two is
  enough, and any greater depth gives the same result.  The reason is the cycle guard:
  a child is entered only when its unique id is not in the chain, and the chain passed
  down holds the parent's id, so \<open>toData_measure\<close> decreases at every recursive call
  (\<open>toData_measure_child\<close>).
\<close>

theorem toData_terminates:
  "\<exists>res. \<forall>k. toData (toData_depth h + k) x h r extraKeys upperDeps = Some res"
  by (rule toData_result)

text \<open>On the heap with a self-loop and a two-cycle, the data of the first endpoint.\<close>

theorem toData_terminates_witness:
  "\<exists>res. \<forall>k. toData (toData_depth cyclic_heap + k) sample_externals cyclic_heap 0 [] []
      = Some res"
  using toData_terminates [of cyclic_heap sample_externals 0 "[]" "[]"] by simp

subsection \<open>Election among semver endpoints\<close>

lemmas sample_defs = two_versions_def new_manager_def sample_endpoint_def sample_meta_def
  sample_semver_defs sample_externals_def

lemma hasMeta_pickMeta: "hasMeta h r \<Longrightarrow> \<exists>pm. pickMeta h r = Inr pm"
  by (auto simp: hasMeta_def split: sum.splits)

lemma hasMeta_deref: "hasMeta h r \<Longrightarrow> \<exists>e. deref h r = Some e"
  by (auto simp: hasMeta_def pickMeta_def split: sum.splits option.splits)

lemma everySatisfied_meta:
  assumes "hasMeta h s" and "\<forall>d \<in> set ds. hasMeta h d"
  shows "everySatisfied sv h s ds
    = Inr (\<forall>d \<in> set ds. d \<noteq> s \<longrightarrow> satisfiesV sv (versionOf h s) (targetOf h d))"
  using assms
proof (induction ds)
  case Nil
  then show ?case by simp
next
  case (Cons d ds)
  obtain pm where pm: "pickMeta h s = Inr pm" using hasMeta_pickMeta Cons.prems(1) by blast
  have "hasMeta h d" using Cons.prems(2) by simp
  then obtain e where e: "deref h d = Some e" using hasMeta_deref by blast
  from Cons pm e show ?case by (auto simp: versionOf_def targetOf_def)
qed

lemma findSuitable_meta:
  assumes "\<forall>d \<in> set semvers. hasMeta h d" and "set subjects \<subseteq> set semvers"
  shows "findSuitable sv h semvers subjects = Inr (List.find (suitsAll sv h semvers) subjects)"
  using assms(2)
proof (induction subjects)
  case Nil
  then show ?case by simp
next
  case (Cons s subjects)
  then have "hasMeta h s" using assms(1) by auto
  from everySatisfied_meta [OF this assms(1), of sv] Cons show ?case
    by (auto simp: suitsAll_def split: bool.splits)
qed

text \<open>
  Claim C1.  With no non-semver candidate, and every candidate an endpoint with a
  \<^verbatim>\<open>pkgMeta\<close>: if the version of some candidate satisfies the target of every other
  candidate, \<^verbatim>\<open>_electSuitable\<close> resolves with a candidate of that kind and leaves the
  Manager as it was; in particular \<^verbatim>\<open>conflicted[rId]\<close> is not set.
\<close>

theorem electSuitable_semvers:
  assumes "\<forall>r \<in> set semvers. hasMeta m r"
    and "\<exists>s \<in> set semvers. suitsAll sv m semvers s"
  shows "\<exists>s \<in> set semvers. suitsAll sv m semvers s
           \<and> electSuitable sv x answer m rid semvers [] = (Inr (Some s), m)"
proof -
  from assms(2) obtain s where s: "List.find (suitsAll sv m semvers) semvers = Some s"
    by (cases "List.find (suitsAll sv m semvers) semvers") (auto simp: find_None_iff)
  then have "s \<in> set semvers" "suitsAll sv m semvers s"
    by (auto simp: find_Some_iff)
  moreover have "electSuitable sv x answer m rid semvers [] = (Inr (Some s), m)"
    using findSuitable_meta [OF assms(1) subset_refl, of sv] s
    by (simp add: electSuitable_def firstPass_def)
  ultimately show ?thesis by blast
qed

text \<open>
  Version 1.0.0 asked for as \<^verbatim>\<open>~1.0.0\<close> and version 2.0.0 asked for as \<^verbatim>\<open>>=1.0.0\<close>:
  the first is elected, the second does not satisfy \<^verbatim>\<open>~1.0.0\<close>.
\<close>

theorem electSuitable_semvers_witness:
  "electSuitable sample_semver sample_externals [] (two_versions ''>=1.0.0'') ''a'' [1, 0] []
     = (Inr (Some 0), two_versions ''>=1.0.0'')"
proof -
  have 1: "\<forall>r \<in> set [1, 0]. hasMeta (two_versions ''>=1.0.0'') r"
    by (simp add: hasMeta_def pickMeta_def deref_def sample_defs)
  have 2: "\<exists>s \<in> set [1, 0]. suitsAll sample_semver (two_versions ''>=1.0.0'') [1, 0] s"
    by (simp add: suitsAll_def satisfiesV_def versionOf_def targetOf_def
        pickMeta_def deref_def truthy_def sample_defs)
  have 3: "\<not> suitsAll sample_semver (two_versions ''>=1.0.0'') [1, 0] 1"
    by (simp add: suitsAll_def satisfiesV_def versionOf_def targetOf_def
        pickMeta_def deref_def truthy_def sample_defs)
  from electSuitable_semvers [OF 1 2, of sample_externals "[]" "''a''"] 3
  show ?thesis by auto
qed

subsection \<open>The range against range row of \<^verbatim>\<open>_areCompatible\<close>\<close>

















lemma capOf_simps [simp]:
  "capOf None = empty_cap"
  "capOf (Some (p, v)) = \<lparr>cap_version = Some v, cap_comparator = Some p\<rparr>"
  by (simp_all add: capOf_def)

lemma truthy_capOf: "truthy (cap_version (capOf c)) = (c \<noteq> None \<and> snd (the c) \<noteq> [])"
  by (cases c) (auto simp: capOf_def truthy_def empty_cap_def)



























subsection \<open>The sample sort keeps the contract\<close>









subsection \<open>Conflicts\<close>







































lemma logs_fields [simp]:
  "forceLatest (logs l m) = forceLatest m"
  "config (logs l m) = config m"
  "resolutions (logs l m) = resolutions m"
  "conflicted (logs l m) = conflicted m"
  "endpoints (logs l m) = endpoints m"
  "depObjs (logs l m) = depObjs m"
  by (simp_all add: logs_def)

lemma deref_other_fields [simp]:
  "deref (logs l m) = deref m"
  "deref (m\<lparr>conflicted := c\<rparr>) = deref m"
  by (simp_all add: fun_eq_iff deref_def logs_def)

















end
